theory Spec2Isabelle
  imports Main
begin

section \<open>Values: JSON documents, numbers, truthiness\<close>

text \<open>
  The profile file is read with \<^verbatim>\<open>JSON.parse\<close> and written with
  \<^verbatim>\<open>JSON.stringify\<close>. Both are library functions; the text of a file is represented
  here by the document \<^verbatim>\<open>JSON.parse\<close> makes of it. An object is an association list in
  key order (a parsed object has pairwise distinct keys).
\<close>

datatype json =
    JNull
  | JBool bool
  | JNumber int
  | JString string
  | JArray "json list"
  | JObject "(string \<times> json) list"

text \<open>A JavaScript number as \<^verbatim>\<open>parseInt\<close> yields it: an integer, or NaN.\<close>

datatype jsnumber = Num int | NaN

text \<open>
  \<^verbatim>\<open>if (s)\<close> for \<^verbatim>\<open>s: string | undefined\<close>: undefined and the empty string are falsy.
\<close>

fun truthy :: "string option \<Rightarrow> bool" where
  "truthy None = False"
| "truthy (Some s) = (s \<noteq> [])"

datatype exn = ReadFailed | SyntaxError | TypeError | MkdirFailed | WriteFailed

text \<open>
  Property access \<^verbatim>\<open>data.key\<close> on a parsed document: it throws a TypeError on
  \<^verbatim>\<open>null\<close>, yields undefined (\<open>None\<close>) on a missing key and on booleans, numbers, strings
  and arrays (none of the keys read by the program is a property of those).
\<close>

fun member :: "json \<Rightarrow> string \<Rightarrow> exn + json option" where
  "member JNull k = Inl TypeError"
| "member (JObject kvs) k = Inr (map_of kvs k)"
| "member _ k = Inr None"

text \<open>\<^verbatim>\<open>Array.isArray(v) ? v : []\<close>\<close>

fun array_or_empty :: "json option \<Rightarrow> json list" where
  "array_or_empty (Some (JArray xs)) = xs"
| "array_or_empty _ = []"

section \<open>Data model (extension.ts, lines 12-32)\<close>

datatype authMethod = SshKey | Password

record DeploymentProfile =
  name :: string
  host :: string
  port :: jsnumber
  username :: string
  remotePath :: string
  deployOnSave :: "bool option"
  authMethod :: authMethod
  privateKeyPath :: "string option"
  passphrase :: "string option"

record SSHConfig =
  ssh_host :: string
  ssh_port :: jsnumber
  ssh_username :: string
  privateKey :: "string option"
  ssh_passphrase :: "string option"
  password :: "string option"
  agent :: "string option"

text \<open>
  What \<^verbatim>\<open>JSON.stringify\<close> writes for a profile object: every own property, in the
  order of the object literal of the add and edit handlers; a property whose value is
  undefined is left out, and NaN is written as \<^verbatim>\<open>null\<close>.
\<close>

fun number_json :: "jsnumber \<Rightarrow> json" where
  "number_json (Num n) = JNumber n"
| "number_json NaN = JNull"

fun authMethod_json :: "authMethod \<Rightarrow> json" where
  "authMethod_json SshKey = JString ''ssh-key''"
| "authMethod_json Password = JString ''password''"

fun optional :: "string \<Rightarrow> ('a \<Rightarrow> json) \<Rightarrow> 'a option \<Rightarrow> (string \<times> json) list" where
  "optional k f None = []"
| "optional k f (Some v) = [(k, f v)]"

definition profile_json :: "DeploymentProfile \<Rightarrow> json" where
  "profile_json p = JObject
     ([(''name'', JString (name p)),
       (''host'', JString (host p)),
       (''port'', number_json (port p)),
       (''username'', JString (username p)),
       (''remotePath'', JString (remotePath p)),
       (''authMethod'', authMethod_json (authMethod p))]
      @ optional ''privateKeyPath'' JString (privateKeyPath p)
      @ optional ''deployOnSave'' JBool (deployOnSave p)
      @ optional ''passphrase'' JString (passphrase p))"

text \<open>
  The reverse reading: the TypeScript code takes the elements of the parsed array as
  \<^verbatim>\<open>DeploymentProfile\<close> values without any check; \<open>as_profile\<close> says which documents
  inhabit that interface and with which fields.
\<close>

fun as_string :: "json option \<Rightarrow> string option" where
  "as_string (Some (JString s)) = Some s"
| "as_string _ = None"

fun as_number :: "json option \<Rightarrow> jsnumber option" where
  "as_number (Some (JNumber n)) = Some (Num n)"
| "as_number _ = None"

fun as_authMethod :: "json option \<Rightarrow> authMethod option" where
  "as_authMethod (Some (JString s)) =
     (if s = ''ssh-key'' then Some SshKey
      else if s = ''password'' then Some Password else None)"
| "as_authMethod _ = None"

fun as_optional_string :: "json option \<Rightarrow> string option option" where
  "as_optional_string None = Some None"
| "as_optional_string (Some (JString s)) = Some (Some s)"
| "as_optional_string _ = None"

fun as_optional_bool :: "json option \<Rightarrow> bool option option" where
  "as_optional_bool None = Some None"
| "as_optional_bool (Some (JBool b)) = Some (Some b)"
| "as_optional_bool _ = None"

fun as_profile :: "json \<Rightarrow> DeploymentProfile option" where
  "as_profile (JObject kvs) =
     (case (as_string (map_of kvs ''name''), as_string (map_of kvs ''host''),
            as_number (map_of kvs ''port''), as_string (map_of kvs ''username''),
            as_string (map_of kvs ''remotePath''), as_optional_bool (map_of kvs ''deployOnSave''),
            as_authMethod (map_of kvs ''authMethod''),
            as_optional_string (map_of kvs ''privateKeyPath''),
            as_optional_string (map_of kvs ''passphrase'')) of
        (Some n, Some h, Some po, Some u, Some r, Some d, Some a, Some k, Some pp) \<Rightarrow>
          Some \<lparr>name = n, host = h, port = po, username = u, remotePath = r,
                deployOnSave = d, authMethod = a, privateKeyPath = k, passphrase = pp\<rparr>
      | _ \<Rightarrow> None)"
| "as_profile _ = None"

section \<open>Profile repository (extension.ts, lines 34-55)\<close>

text \<open>
  The backing store as the two functions see it: the state of
  \<^verbatim>\<open>.vscode/deployments.sftp.json\<close> (missing; present but \<^verbatim>\<open>readFileSync\<close> throws;
  present with text that \<^verbatim>\<open>JSON.parse\<close> rejects; present with text that parses to a
  document), whether the enclosing directory exists, and whether \<^verbatim>\<open>mkdirSync\<close> and
  \<^verbatim>\<open>writeFileSync\<close> succeed. A write that throws is taken to leave the file as it was.
\<close>

datatype stored = Missing | Unreadable | Unparseable | Parsed json

record disk =
  deployments_file :: stored
  dir_exists :: bool
  mkdir_ok :: bool
  write_ok :: bool

text \<open>The two \<^verbatim>\<open>vscode.window.showErrorMessage\<close> calls, with the exception they report.\<close>

datatype notice = FailedToRead exn | FailedToWrite exn

definition existsSync_file :: "disk \<Rightarrow> bool" where
  "existsSync_file d = (deployments_file d \<noteq> Missing)"

fun readFileSync_parse :: "stored \<Rightarrow> exn + json" where
  "readFileSync_parse Missing = Inl ReadFailed"
| "readFileSync_parse Unreadable = Inl ReadFailed"
| "readFileSync_parse Unparseable = Inl SyntaxError"
| "readFileSync_parse (Parsed data) = Inr data"

text \<open>The body of the \<^verbatim>\<open>try\<close> block of \<^verbatim>\<open>readProfiles\<close>; \<open>Inr None\<close> is falling out of
  the \<^verbatim>\<open>if\<close> without a \<^verbatim>\<open>return\<close>.\<close>

definition readProfiles_try :: "disk \<Rightarrow> exn + json list option" where
  "readProfiles_try d =
     (if existsSync_file d then
        (case readFileSync_parse (deployments_file d) of
           Inl e \<Rightarrow> Inl e
         | Inr data \<Rightarrow>
             (case member data ''deployments'' of
                Inl e \<Rightarrow> Inl e
              | Inr v \<Rightarrow> Inr (Some (array_or_empty v))))
      else Inr None)"

definition readProfiles :: "disk \<Rightarrow> json list \<times> notice list" where
  "readProfiles d =
     (case readProfiles_try d of
        Inl e \<Rightarrow> ([], [FailedToRead e])
      | Inr (Some profiles) \<Rightarrow> (profiles, [])
      | Inr None \<Rightarrow> ([], []))"

definition mkdirSync :: "disk \<Rightarrow> exn + disk" where
  "mkdirSync d = (if mkdir_ok d then Inr (d\<lparr>dir_exists := True\<rparr>) else Inl MkdirFailed)"

definition writeFileSync :: "json \<Rightarrow> disk \<Rightarrow> exn + disk" where
  "writeFileSync doc d =
     (if write_ok d then Inr (d\<lparr>deployments_file := Parsed doc\<rparr>) else Inl WriteFailed)"

definition writeProfiles :: "json list \<Rightarrow> disk \<Rightarrow> disk \<times> notice list" where
  "writeProfiles profiles d =
     (case (if \<not> dir_exists d then mkdirSync d else Inr d) of
        Inl e \<Rightarrow> (d, [FailedToWrite e])
      | Inr d1 \<Rightarrow>
          (case writeFileSync (JObject [(''deployments'', JArray profiles)]) d1 of
             Inl e \<Rightarrow> (d1, [FailedToWrite e])
           | Inr d2 \<Rightarrow> (d2, [])))"

section \<open>Secret store (extension.ts, lines 60-73)\<close>

type_synonym secrets = "string \<rightharpoonup> string"

definition getSecret :: "secrets \<Rightarrow> string \<Rightarrow> string option" where
  "getSecret context key = context key"

definition setSecret :: "secrets \<Rightarrow> string \<Rightarrow> string \<Rightarrow> secrets" where
  "setSecret context key v = context(key \<mapsto> v)"

definition deleteSecret :: "secrets \<Rightarrow> string \<Rightarrow> secrets" where
  "deleteSecret context key = context(key := None)"

text \<open>
  The secret store belongs to the extension, and the two source files change it in these
  places only: a value is stored under a truthiness test of that value
  (\<^verbatim>\<open>if (passphrase)\<close> at extension.ts lines 240-242 and 343-344,
  \<^verbatim>\<open>if (password)\<close> at part_001 lines 445-447), and a key is deleted (extension.ts
  lines 346, 376-377, 698-699). \<open>written_by ws\<close> is the store these writes leave, in
  order, starting from the empty store.
\<close>

datatype secret_write = Stored string string | Deleted string

fun write_secret :: "secret_write \<Rightarrow> secrets \<Rightarrow> secrets" where
  "write_secret (Stored key v) context = (if v \<noteq> [] then setSecret context key v else context)"
| "write_secret (Deleted key) context = deleteSecret context key"

definition written_by :: "secret_write list \<Rightarrow> secrets" where
  "written_by ws = fold write_secret ws Map.empty"

section \<open>Credential resolution (extension.ts, lines 76-106)\<close>

text \<open>
  What \<^verbatim>\<open>getSSHConfig\<close> reads besides the profile and the secret store: the private key
  files (\<open>None\<close> where \<^verbatim>\<open>fs.readFileSync\<close> throws) and the environment variable
  \<^verbatim>\<open>SSH_AUTH_SOCK\<close> (\<open>None\<close> when it is not defined). A lookup in the secret store
  is taken not to fail: it yields the secret, or undefined.
\<close>

record host_env =
  readFileSync :: "string \<Rightarrow> string option"
  SSH_AUTH_SOCK :: "string option"

text \<open>The \<^verbatim>\<open>Error\<close> thrown at line 91, \<^verbatim>\<open>Failed to read private key: ...\<close>.\<close>

datatype error = KeyReadError

definition getSSHConfig :: "host_env \<Rightarrow> secrets \<Rightarrow> DeploymentProfile \<Rightarrow> error + SSHConfig" where
  "getSSHConfig env context profile =
     (let config = \<lparr>ssh_host = host profile, ssh_port = port profile,
                    ssh_username = username profile, privateKey = None,
                    ssh_passphrase = None, password = None, agent = None\<rparr>
      in if authMethod profile = SshKey then
           (case privateKeyPath profile of
              Some path \<Rightarrow>
                (if path \<noteq> [] then
                   (case readFileSync env path of
                      None \<Rightarrow> Inl KeyReadError
                    | Some key \<Rightarrow>
                        (let config = config\<lparr>privateKey := Some key\<rparr>
                         in if truthy (passphrase profile)
                            then Inr (config\<lparr>ssh_passphrase :=
                                   getSecret context (''sftp-passphrase-'' @ name profile)\<rparr>)
                            else Inr config))
                 else Inr (config\<lparr>agent := SSH_AUTH_SOCK env\<rparr>))
            | None \<Rightarrow> Inr (config\<lparr>agent := SSH_AUTH_SOCK env\<rparr>))
         else
           (let pw = getSecret context (''sftp-password-'' @ name profile)
            in if truthy pw then Inr (config\<lparr>password := pw\<rparr>) else Inr config))"

section \<open>Command handlers of extension.ts\<close>

text \<open>
  The state the handlers act on: the disk, the secret store and the error messages shown
  so far. Information messages and the status bar are left out.
\<close>

record app =
  app_disk :: disk
  app_secrets :: secrets
  app_notices :: "notice list"

definition load :: "app \<Rightarrow> json list \<times> app" where
  "load st = (case readProfiles (app_disk st) of
                (profiles, ns) \<Rightarrow> (profiles, st\<lparr>app_notices := app_notices st @ ns\<rparr>))"

definition save :: "json list \<Rightarrow> app \<Rightarrow> app" where
  "save profiles st = (case writeProfiles profiles (app_disk st) of
                         (d, ns) \<Rightarrow> st\<lparr>app_disk := d, app_notices := app_notices st @ ns\<rparr>)"

text \<open>
  The answers the user gives to the prompts of the add command (lines 166-222), \<open>None\<close>
  for a dismissed prompt. \<open>ans_keyPath\<close> is the first file of the open dialog.
  A prompt the handler does not reach is not consulted.
\<close>

datatype key_source = UseAgent | CustomKey

record add_answers =
  ans_name :: "string option"
  ans_host :: "string option"
  ans_portStr :: "string option"
  ans_username :: "string option"
  ans_remotePath :: "string option"
  ans_authMethod :: "authMethod option"
  ans_useCustomKey :: "key_source option"
  ans_keyPath :: "string option"
  ans_passphrase :: "string option"
  ans_deployOnSave :: "bool option"

text \<open>Lines 190-215: the key path and the passphrase that the prompts leave in the two
  local variables.\<close>

definition key_prompts :: "add_answers \<Rightarrow> string option \<times> string option" where
  "key_prompts a =
     (if ans_authMethod a = Some SshKey \<and> ans_useCustomKey a = Some CustomKey then
        (case ans_keyPath a of
           Some path \<Rightarrow> (Some path, ans_passphrase a)
         | None \<Rightarrow> (None, None))
      else (None, None))"

text \<open>
  The add command (lines 165-246). \<open>parseInt\<close> is the library function, taken as a
  parameter. The record saved has no \<open>passphrase\<close> property (lines 225-234); the
  passphrase goes to the secret store only (lines 240-242).
\<close>

definition addProfile :: "(string \<Rightarrow> jsnumber) \<Rightarrow> add_answers \<Rightarrow> app \<Rightarrow> app" where
  "addProfile parseInt a st =
     (if \<not> truthy (ans_name a) then st
      else if \<not> truthy (ans_host a) then st
      else if \<not> truthy (ans_portStr a) then st
      else if \<not> truthy (ans_username a) then st
      else if \<not> truthy (ans_remotePath a) then st
      else if ans_authMethod a = None then st
      else
        (case key_prompts a of (keyPath, pass) \<Rightarrow>
           (case load st of (profiles, st1) \<Rightarrow>
              (let newProfile =
                     \<lparr>name = the (ans_name a), host = the (ans_host a),
                      port = parseInt (the (ans_portStr a)),
                      username = the (ans_username a),
                      remotePath = the (ans_remotePath a),
                      deployOnSave = Some (ans_deployOnSave a = Some True),
                      authMethod = the (ans_authMethod a),
                      privateKeyPath = keyPath, passphrase = None\<rparr>;
                   st2 = save (profiles @ [profile_json newProfile]) st1
               in if truthy pass
                  then st2\<lparr>app_secrets := setSecret (app_secrets st2)
                              (''sftp-passphrase-'' @ the (ans_name a)) (the pass)\<rparr>
                  else st2))))"

text \<open>
  \<^verbatim>\<open>profiles.splice(index, 1)\<close>: the removed elements and what is left; an index past the
  end removes nothing.
\<close>

definition splice1 :: "nat \<Rightarrow> 'a list \<Rightarrow> 'a list \<times> 'a list" where
  "splice1 i xs = (take 1 (drop i xs), take i xs @ drop (Suc i) xs)"

text \<open>
  \<^verbatim>\<open>removed[0].name\<close> inside the two template literals: a TypeError when nothing was
  removed. An element whose \<open>name\<close> is not a string is outside the interface
  \<^verbatim>\<open>DeploymentProfile\<close>; the model stops there (\<open>IllTyped\<close>).
\<close>

datatype fault = Thrown exn | IllTyped

fun removed_name :: "json list \<Rightarrow> fault + string" where
  "removed_name [] = Inl (Thrown TypeError)"
| "removed_name (JObject kvs # _) =
     (case as_string (map_of kvs ''name'') of Some n \<Rightarrow> Inr n | None \<Rightarrow> Inl IllTyped)"
| "removed_name (JNull # _) = Inl (Thrown TypeError)"
| "removed_name (_ # _) = Inl IllTyped"

text \<open>Lines 375-377 and 698-699: the two deletions that follow a removal.\<close>

definition delete_profile_secrets :: "string \<Rightarrow> secrets \<Rightarrow> secrets" where
  "delete_profile_secrets n context =
     deleteSecret (deleteSecret context (''sftp-password-'' @ n)) (''sftp-passphrase-'' @ n)"

text \<open>
  The remove command (lines 355-381); \<open>selected\<close> is the index picked, \<open>None\<close> when the
  pick is dismissed. The result is the state reached and, when the handler throws, the
  fault it ends with. The pick list is built from every element (line 362), where
  \<^verbatim>\<open>p.name\<close> throws on a \<^verbatim>\<open>null\<close> element before anything is removed.
\<close>

definition removeProfile :: "nat option \<Rightarrow> app \<Rightarrow> app \<times> fault option" where
  "removeProfile selected st =
     (case load st of (profiles, st1) \<Rightarrow>
        if profiles = [] then (st1, None)
        else if JNull \<in> set profiles then (st1, Some (Thrown TypeError))
        else (case selected of
                None \<Rightarrow> (st1, None)
              | Some i \<Rightarrow>
                  (case splice1 i profiles of (removed, rest) \<Rightarrow>
                     (let st2 = save rest st1
                      in case removed_name removed of
                           Inl f \<Rightarrow> (st2, Some f)
                         | Inr n \<Rightarrow>
                             (st2\<lparr>app_secrets := delete_profile_secrets n (app_secrets st2)\<rparr>,
                              None)))))"

text \<open>
  The panel of the manage command keeps the list it read when it was opened (line 678)
  and the index being edited; the remove message (lines 695-701).
\<close>

record panel =
  panel_profiles :: "json list"
  editingIndex :: "nat option"

definition manageProfiles_remove :: "nat \<Rightarrow> panel \<Rightarrow> app \<Rightarrow> (panel \<times> app) \<times> fault option" where
  "manageProfiles_remove i pn st =
     (case splice1 i (panel_profiles pn) of (removed, rest) \<Rightarrow>
        (let pn1 = pn\<lparr>panel_profiles := rest\<rparr>; st1 = save rest st
         in case removed_name removed of
              Inl f \<Rightarrow> ((pn1, st1), Some f)
            | Inr n \<Rightarrow>
                ((pn1\<lparr>editingIndex := None\<rparr>,
                  st1\<lparr>app_secrets := delete_profile_secrets n (app_secrets st1)\<rparr>), None)))"

section \<open>The handlers of the second source file (part_001)\<close>

text \<open>
  The second source file has the same \<^verbatim>\<open>readProfiles\<close> and \<^verbatim>\<open>writeProfiles\<close>, line for
  line, profiles without authentication fields, and a password kept in the secret store
  under \<^verbatim>\<open>sftp-password-<name>\<close>. Its remove command (lines 146-158) and the remove
  message of its panel (lines 431-435) call no secret-store function. The remove command
  builds its pick list from every element (line 152) and throws on a \<^verbatim>\<open>null\<close> element
  before anything is removed.
\<close>

definition removeProfile_part001 :: "nat option \<Rightarrow> app \<Rightarrow> app" where
  "removeProfile_part001 selected st =
     (case load st of (profiles, st1) \<Rightarrow>
        if profiles = [] then st1
        else if JNull \<in> set profiles then st1
        else (case selected of
                None \<Rightarrow> st1
              | Some i \<Rightarrow> save (snd (splice1 i profiles)) st1))"

definition manageProfiles_remove_part001 :: "nat \<Rightarrow> panel \<Rightarrow> app \<Rightarrow> panel \<times> app" where
  "manageProfiles_remove_part001 i pn st =
     (let rest = snd (splice1 i (panel_profiles pn))
      in (\<lparr>panel_profiles = rest, editingIndex = None\<rparr>, save rest st))"

text \<open>
  The save message of the same panel (lines 436-451). The form fields are strings;
  \<open>form_index\<close> is the hidden field \<^verbatim>\<open>editingIndex\<close>, empty when a profile is added.
  \<^verbatim>\<open>profiles[n] = obj\<close> past the end pads the array with holes, which are written as
  \<^verbatim>\<open>null\<close>; with NaN, a negative number or a number above the largest array index
  (\<open>2^32 - 2\<close>) it sets a plain property and leaves the elements as they are.
\<close>

record save_form =
  form_name :: string
  form_host :: string
  form_port :: string
  form_username :: string
  form_remotePath :: string
  form_password :: string
  form_index :: string

definition assign_index :: "jsnumber \<Rightarrow> 'a \<Rightarrow> 'a \<Rightarrow> 'a list \<Rightarrow> 'a list" where
  "assign_index n hole v xs =
     (case n of
        NaN \<Rightarrow> xs
      | Num k \<Rightarrow>
          if k < 0 \<or> k > 4294967294 then xs
          else if nat k < length xs then xs[nat k := v]
          else xs @ replicate (nat k - length xs) hole @ [v])"

definition manageProfiles_save_part001 ::
    "(string \<Rightarrow> jsnumber) \<Rightarrow> save_form \<Rightarrow> panel \<Rightarrow> app \<Rightarrow> panel \<times> app" where
  "manageProfiles_save_part001 parseInt f pn st =
     (let profileObj = JObject [(''name'', JString (form_name f)),
                                (''host'', JString (form_host f)),
                                (''port'', number_json (parseInt (form_port f))),
                                (''username'', JString (form_username f)),
                                (''remotePath'', JString (form_remotePath f))];
          profiles = (if form_index f = [] then panel_profiles pn @ [profileObj]
                      else assign_index (parseInt (form_index f)) JNull profileObj
                             (panel_profiles pn));
          st1 = save profiles st;
          st2 = (if form_password f \<noteq> []
                 then st1\<lparr>app_secrets := setSecret (app_secrets st1)
                             (''sftp-password-'' @ form_name f) (form_password f)\<rparr>
                 else st1)
      in (\<lparr>panel_profiles = profiles, editingIndex = None\<rparr>, st2))"

section \<open>Recursive directory upload (part_001, lines 457-489)\<close>

text \<open>
  \<^verbatim>\<open>uploadDirectory\<close> is written with callbacks: \<^verbatim>\<open>fs.readdir\<close>, \<^verbatim>\<open>fs.stat\<close>,
  \<^verbatim>\<open>sftp.fastPut\<close> and \<^verbatim>\<open>sftp.mkdir\<close> return at once and run their callback later,
  from the event loop. The model keeps the operations whose callback has not run yet and
  runs them one at a time, in the order a schedule gives.

  The local tree: what \<^verbatim>\<open>fs.stat\<close> says of an entry (a regular file, a directory with
  the entries \<^verbatim>\<open>fs.readdir\<close> lists, a directory whose listing fails, something that is
  neither, or an entry on which \<^verbatim>\<open>fs.stat\<close> fails).
\<close>

datatype node =
    File
  | Directory "(string \<times> node) list"
  | Unlistable
  | Special
  | Unstatable

text \<open>The remote calls, named by their remote path, and what the walk reports.\<close>

datatype call = FastPut string | Mkdir string

datatype upload_error = ReaddirError | StatError | PutError string

datatype event =
    Issued call
  | PutFailed string
  | Finished "upload_error option"

text \<open>
  The callback \<open>cb\<close> of an invocation: the caller's (\<open>Top\<close>), or the one built at lines
  478-481 by the invocation \<open>f\<close> that found the directory, which holds that invocation's
  own callback.
\<close>

datatype cont = Top | Sub nat cont

text \<open>
  One invocation of \<^verbatim>\<open>uploadDirectory\<close>: its \<open>remoteDir\<close>, the result its
  \<^verbatim>\<open>fs.readdir\<close> will deliver (\<open>None\<close> for an error), the counter \<open>i\<close> of its closure
  \<^verbatim>\<open>next\<close> (\<open>next_i\<close>), and its callback.
\<close>

record frame =
  remoteDir :: string
  files :: "(string \<times> node) list option"
  next_i :: nat
  cb :: cont

datatype pending =
    Readdir nat
  | Stat nat string node
  | Put nat string
  | MkdirDone nat

record loop =
  frames :: "frame list"
  queue :: "pending list"
  trace :: "event list"

definition emit :: "event \<Rightarrow> loop \<Rightarrow> loop" where
  "emit e s = s\<lparr>trace := trace s @ [e]\<rparr>"

definition await :: "pending \<Rightarrow> loop \<Rightarrow> loop" where
  "await p s = s\<lparr>queue := queue s @ [p]\<rparr>"

text \<open>\<^verbatim>\<open>cb(err)\<close> with an error: every callback of lines 478-481 hands it to its own
  \<open>cb\<close>, up to the caller.\<close>

fun fail :: "cont \<Rightarrow> upload_error \<Rightarrow> loop \<Rightarrow> loop" where
  "fail Top e s = emit (Finished (Some e)) s"
| "fail (Sub f k) e s = fail k e s"

text \<open>
  \<^verbatim>\<open>next()\<close> of invocation \<open>f\<close> whose callback is \<open>k\<close> (lines 461-486): past the last
  entry it calls \<open>cb()\<close>, which for a callback of lines 478-481 is the \<^verbatim>\<open>next()\<close> of the
  invocation above; otherwise it takes entry \<open>i\<close>, increments \<open>i\<close> and calls
  \<^verbatim>\<open>fs.stat\<close>.
\<close>

fun "next" :: "nat \<Rightarrow> cont \<Rightarrow> loop \<Rightarrow> loop" where
  "next f k s =
     (let fr = frames s ! f; entries = (case files fr of Some es \<Rightarrow> es | None \<Rightarrow> [])
      in if next_i fr \<ge> length entries then
           (case k of
              Top \<Rightarrow> emit (Finished None) s
            | Sub g k' \<Rightarrow> next g k' s)
         else
           (case entries ! next_i fr of (file, nd) \<Rightarrow>
              await (Stat f file nd) (s\<lparr>frames := (frames s)[f := fr\<lparr>next_i := Suc (next_i fr)\<rparr>]\<rparr>)))"

text \<open>
  Running one callback. For a directory (lines 473-481) \<^verbatim>\<open>sftp.mkdir\<close> is issued with
  a callback that calls \<^verbatim>\<open>next()\<close>, and then \<^verbatim>\<open>uploadDirectory\<close> is called on the
  subdirectory with a callback that calls \<^verbatim>\<open>next()\<close> as well. \<open>put_ok\<close> says which
  uploads succeed.
\<close>

definition enter :: "string \<Rightarrow> (string \<times> node) list option \<Rightarrow> cont \<Rightarrow> loop \<Rightarrow> loop" where
  "enter rdir listing k s =
     await (Readdir (length (frames s)))
       (s\<lparr>frames := frames s @ [\<lparr>remoteDir = rdir, files = listing, next_i = 0, cb = k\<rparr>]\<rparr>)"

fun fire :: "(string \<Rightarrow> bool) \<Rightarrow> pending \<Rightarrow> loop \<Rightarrow> loop" where
  "fire put_ok (Readdir f) s =
     (let fr = frames s ! f
      in case files fr of
           None \<Rightarrow> fail (cb fr) ReaddirError s
         | Some es \<Rightarrow> next f (cb fr) s)"
| "fire put_ok (Stat f file nd) s =
     (let fr = frames s ! f; target = remoteDir fr @ file
      in case nd of
           Unstatable \<Rightarrow> fail (cb fr) StatError s
         | File \<Rightarrow> await (Put f target) (emit (Issued (FastPut target)) s)
         | Directory es \<Rightarrow>
             enter (target @ ''/'') (Some es) (Sub f (cb fr))
               (await (MkdirDone f) (emit (Issued (Mkdir target)) s))
         | Unlistable \<Rightarrow>
             enter (target @ ''/'') None (Sub f (cb fr))
               (await (MkdirDone f) (emit (Issued (Mkdir target)) s))
         | Special \<Rightarrow> next f (cb fr) s)"
| "fire put_ok (Put f target) s =
     (let fr = frames s ! f
      in if put_ok target then next f (cb fr) s
         else fail (cb fr) (PutError target) (emit (PutFailed target) s))"
| "fire put_ok (MkdirDone f) s = next f (cb (frames s ! f)) s"

text \<open>
  The event loop: each number of the schedule picks, by position, the pending operation
  whose callback runs next; a number past the end of the queue picks none. A schedule
  of zeros completes the operations in the order they were started.
\<close>

fun run :: "(string \<Rightarrow> bool) \<Rightarrow> nat list \<Rightarrow> loop \<Rightarrow> loop" where
  "run put_ok [] s = s"
| "run put_ok (n # ns) s =
     (if n < length (queue s)
      then run put_ok ns
             (fire put_ok (queue s ! n) (s\<lparr>queue := take n (queue s) @ drop (Suc n) (queue s)\<rparr>))
      else run put_ok ns s)"

definition uploadDirectory :: "(string \<times> node) list option \<Rightarrow> string \<Rightarrow> loop" where
  "uploadDirectory localDir remote =
     enter remote localDir Top \<lparr>frames = [], queue = [], trace = []\<rparr>"

section \<open>Concrete inputs\<close>

text \<open>
  \<^verbatim>\<open>parseInt(s, 10)\<close> on ASCII text: leading white space, an optional sign, then the
  longest run of decimal digits; NaN when there is none. The value is the exact integer:
  this is what the code computes up to \<open>2^53\<close>, where a double starts to round. It is
  used here on port numbers.
\<close>

definition is_digit :: "char \<Rightarrow> bool" where
  "is_digit c = (48 \<le> (of_char c :: nat) \<and> (of_char c :: nat) \<le> 57)"

definition is_space :: "char \<Rightarrow> bool" where
  "is_space c = ((of_char c :: nat) \<in> {9, 10, 11, 12, 13, 32})"

definition digits_value :: "string \<Rightarrow> int" where
  "digits_value ds = foldl (\<lambda>a c. 10 * a + (int (of_char c) - 48)) 0 ds"

definition parseInt10 :: "string \<Rightarrow> jsnumber" where
  "parseInt10 s =
     (let t = dropWhile is_space s;
          neg = (t \<noteq> [] \<and> hd t = CHR ''-'');
          u = (if t \<noteq> [] \<and> (hd t = CHR ''-'' \<or> hd t = CHR ''+'') then tl t else t);
          ds = takeWhile is_digit u
      in if ds = [] then NaN else Num (if neg then - digits_value ds else digits_value ds))"

text \<open>The profile of the specification's scenario, and secret stores for it: the empty
  one, and the one left by storing the password \<open>s3cr3t\<close> for \<open>prod\<close>.\<close>

definition prod_profile :: DeploymentProfile where
  "prod_profile = \<lparr>name = ''prod'', host = ''h'', port = Num 22, username = ''u'',
                    remotePath = ''/var/www'', deployOnSave = None, authMethod = Password,
                    privateKeyPath = None, passphrase = None\<rparr>"

definition no_secrets :: secrets where
  "no_secrets = Map.empty"

definition prod_secrets :: secrets where
  "prod_secrets = Map.empty(''sftp-password-prod'' \<mapsto> ''s3cr3t'')"

definition prod_writes :: "secret_write list" where
  "prod_writes = [Stored ''sftp-password-prod'' ''s3cr3t'']"

text \<open>Environments: nothing readable and no agent; an agent socket; one key file.\<close>

definition bare_env :: host_env where
  "bare_env = \<lparr>readFileSync = Map.empty, SSH_AUTH_SOCK = None\<rparr>"

definition agent_env :: host_env where
  "agent_env = \<lparr>readFileSync = Map.empty, SSH_AUTH_SOCK = Some ''/tmp/ssh-agent.sock''\<rparr>"

definition key_env :: host_env where
  "key_env = \<lparr>readFileSync = Map.empty(''/home/u/.ssh/id_rsa'' \<mapsto> ''KEY''),
               SSH_AUTH_SOCK = None\<rparr>"

text \<open>Key-based variants of the profile: agent, custom key, empty key path.\<close>

definition agent_profile :: DeploymentProfile where
  "agent_profile = prod_profile\<lparr>authMethod := SshKey\<rparr>"

definition prod_key_profile :: DeploymentProfile where
  "prod_key_profile = \<lparr>name = ''prod'', host = ''h'', port = Num 22, username = ''u'',
                        remotePath = ''/var/www'', deployOnSave = Some False,
                        authMethod = SshKey,
                        privateKeyPath = Some ''/home/u/.ssh/id_rsa'', passphrase = None\<rparr>"

definition empty_path_profile :: DeploymentProfile where
  "empty_path_profile = prod_profile\<lparr>authMethod := SshKey, privateKeyPath := Some []\<rparr>"

text \<open>Two records that differ in the \<open>passphrase\<close> property only.\<close>

definition profile_a :: DeploymentProfile where
  "profile_a = prod_key_profile\<lparr>passphrase := Some ''a''\<rparr>"

definition profile_b :: DeploymentProfile where
  "profile_b = prod_key_profile\<lparr>passphrase := Some ''b''\<rparr>"

text \<open>A project without a profile file, and files that lack the array.\<close>

definition fresh_disk :: disk where
  "fresh_disk = \<lparr>deployments_file = Missing, dir_exists = False, mkdir_ok = True,
                  write_ok = True\<rparr>"

definition holding :: "stored \<Rightarrow> disk" where
  "holding f = \<lparr>deployments_file = f, dir_exists = True, mkdir_ok = True, write_ok = True\<rparr>"

definition fresh_app :: app where
  "fresh_app = \<lparr>app_disk = fresh_disk, app_secrets = no_secrets, app_notices = []\<rparr>"

text \<open>The answers of a user who adds \<open>prod\<close> with a custom key and a passphrase, and the
  state the add command leaves.\<close>

definition key_answers :: add_answers where
  "key_answers = \<lparr>ans_name = Some ''prod'', ans_host = Some ''h'', ans_portStr = Some ''22'',
      ans_username = Some ''u'', ans_remotePath = Some ''/var/www'',
      ans_authMethod = Some SshKey, ans_useCustomKey = Some CustomKey,
      ans_keyPath = Some ''/home/u/.ssh/id_rsa'', ans_passphrase = Some ''hunter2'',
      ans_deployOnSave = Some False\<rparr>"

definition after_add :: app where
  "after_add = addProfile parseInt10 key_answers fresh_app"

text \<open>The panel of the second source file: \<open>prod\<close> saved with a password, then removed.\<close>

definition empty_panel :: panel where
  "empty_panel = \<lparr>panel_profiles = [], editingIndex = None\<rparr>"

definition prod_form :: save_form where
  "prod_form = \<lparr>form_name = ''prod'', form_host = ''h'', form_port = ''22'',
     form_username = ''u'', form_remotePath = ''/var/www'', form_password = ''s3cr3t'',
     form_index = []\<rparr>"

definition panel_saved :: "panel \<times> app" where
  "panel_saved = manageProfiles_save_part001 parseInt10 prod_form empty_panel fresh_app"

definition panel_removed :: "panel \<times> app" where
  "panel_removed = manageProfiles_remove_part001 0 (fst panel_saved) (snd panel_saved)"

text \<open>A directory listed as \<open>b\<close> (a directory that holds the empty directory \<open>c\<close>),
  \<open>x.txt\<close>, \<open>z.txt\<close>; the upload of \<open>x.txt\<close> fails, every other upload succeeds.\<close>

definition local_tree :: "(string \<times> node) list" where
  "local_tree = [(''b'', Directory [(''c'', Directory [])]), (''x.txt'', File), (''z.txt'', File)]"

definition x_fails :: "string \<Rightarrow> bool" where
  "x_fails target = (target \<noteq> ''/r/x.txt'')"

definition in_order :: "nat list" where
  "in_order = replicate 11 0"

section \<open>Evaluation lemmas\<close>

lemmas parseInt10_eval = parseInt10_def is_digit_def is_space_def digits_value_def Let_def

lemmas store_eval = load_def save_def readProfiles_def readProfiles_try_def writeProfiles_def
  mkdirSync_def writeFileSync_def existsSync_file_def

lemma as_profile_profile_json: "port p \<noteq> NaN \<Longrightarrow> as_profile (profile_json p) = Some p"
  by (cases p; cases "port p"; cases "authMethod p"; cases "privateKeyPath p";
      cases "deployOnSave p"; cases "passphrase p")
     (simp_all add: profile_json_def)

lemma writeProfiles_quiet:
  "snd (writeProfiles js d) = [] \<Longrightarrow>
   deployments_file (fst (writeProfiles js d)) = Parsed (JObject [(''deployments'', JArray js)])"
  by (auto simp: writeProfiles_def mkdirSync_def writeFileSync_def split: if_splits)

lemma readProfiles_parsed:
  "deployments_file d = Parsed (JObject [(''deployments'', JArray js)]) \<Longrightarrow>
   readProfiles d = (js, [])"
  by (simp add: readProfiles_def readProfiles_try_def existsSync_file_def)

lemma after_add_disk:
  "app_disk after_add =
     \<lparr>deployments_file =
        Parsed (JObject [(''deployments'', JArray [profile_json prod_key_profile])]),
      dir_exists = True, mkdir_ok = True, write_ok = True\<rparr>"
  by (simp add: after_add_def addProfile_def key_prompts_def store_eval setSecret_def
        profile_json_def key_answers_def fresh_app_def fresh_disk_def prod_key_profile_def
        parseInt10_eval)

lemma after_add_secret: "app_secrets after_add ''sftp-passphrase-prod'' = Some ''hunter2''"
  by (simp add: after_add_def addProfile_def key_prompts_def store_eval setSecret_def
        key_answers_def fresh_app_def fresh_disk_def no_secrets_def parseInt10_eval)

lemma panel_saved_eq:
  "panel_saved =
     (\<lparr>panel_profiles =
         [JObject [(''name'', JString ''prod''), (''host'', JString ''h''),
                   (''port'', JNumber 22), (''username'', JString ''u''),
                   (''remotePath'', JString ''/var/www'')]],
       editingIndex = None\<rparr>,
      \<lparr>app_disk =
         \<lparr>deployments_file = Parsed (JObject [(''deployments'', JArray
             [JObject [(''name'', JString ''prod''), (''host'', JString ''h''),
                       (''port'', JNumber 22), (''username'', JString ''u''),
                       (''remotePath'', JString ''/var/www'')]])]),
          dir_exists = True, mkdir_ok = True, write_ok = True\<rparr>,
       app_secrets = prod_secrets, app_notices = []\<rparr>)"
  by (simp add: panel_saved_def manageProfiles_save_part001_def prod_form_def empty_panel_def
        fresh_app_def fresh_disk_def no_secrets_def prod_secrets_def save_def writeProfiles_def
        mkdirSync_def writeFileSync_def setSecret_def parseInt10_eval)

text \<open>The three ways \<^verbatim>\<open>getSSHConfig\<close> returns a configuration.\<close>

lemma resolved_cases:
  assumes "getSSHConfig env context p = Inr c"
  obtains
    (with_key) path key where "authMethod p = SshKey" "privateKeyPath p = Some path" "path \<noteq> []"
        "readFileSync env path = Some key"
        "c = \<lparr>ssh_host = host p, ssh_port = port p, ssh_username = username p,
              privateKey = Some key,
              ssh_passphrase = (if truthy (passphrase p)
                                then getSecret context (''sftp-passphrase-'' @ name p) else None),
              password = None, agent = None\<rparr>"
  | (with_agent) "authMethod p = SshKey" "\<not> truthy (privateKeyPath p)"
        "c = \<lparr>ssh_host = host p, ssh_port = port p, ssh_username = username p,
              privateKey = None, ssh_passphrase = None, password = None,
              agent = SSH_AUTH_SOCK env\<rparr>"
  | (with_password) "authMethod p = Password"
        "c = \<lparr>ssh_host = host p, ssh_port = port p, ssh_username = username p,
              privateKey = None, ssh_passphrase = None,
              password = (if truthy (getSecret context (''sftp-password-'' @ name p))
                          then getSecret context (''sftp-password-'' @ name p) else None),
              agent = None\<rparr>"
proof (cases "authMethod p")
  case Password
  with assms have "c = \<lparr>ssh_host = host p, ssh_port = port p, ssh_username = username p,
              privateKey = None, ssh_passphrase = None,
              password = (if truthy (getSecret context (''sftp-password-'' @ name p))
                          then getSecret context (''sftp-password-'' @ name p) else None),
              agent = None\<rparr>"
    by (simp add: getSSHConfig_def Let_def split: if_splits)
  with Password show ?thesis by (rule with_password)
next
  case SshKey
  show ?thesis
  proof (cases "truthy (privateKeyPath p)")
    case False
    with SshKey assms have "c = \<lparr>ssh_host = host p, ssh_port = port p, ssh_username = username p,
              privateKey = None, ssh_passphrase = None, password = None,
              agent = SSH_AUTH_SOCK env\<rparr>"
      by (cases "privateKeyPath p") (simp_all add: getSSHConfig_def Let_def)
    with SshKey False show ?thesis by (rule with_agent)
  next
    case True
    then obtain path where path: "privateKeyPath p = Some path" "path \<noteq> []"
      by (cases "privateKeyPath p") simp_all
    with SshKey assms obtain key where key: "readFileSync env path = Some key"
      by (cases "readFileSync env path") (simp_all add: getSSHConfig_def Let_def)
    with SshKey path assms have "c = \<lparr>ssh_host = host p, ssh_port = port p, ssh_username = username p,
              privateKey = Some key,
              ssh_passphrase = (if truthy (passphrase p)
                                then getSecret context (''sftp-passphrase-'' @ name p) else None),
              password = None, agent = None\<rparr>"
      by (simp add: getSSHConfig_def Let_def split: if_splits)
    with SshKey path key show ?thesis by (rule with_key)
  qed
qed

text \<open>The password branch of \<^verbatim>\<open>getSSHConfig\<close>, for any store whatever.\<close>

lemma password_branch:
  assumes "authMethod p = Password"
  shows "getSSHConfig env context p =
           Inr \<lparr>ssh_host = host p, ssh_port = port p, ssh_username = username p,
                privateKey = None, ssh_passphrase = None,
                password = (if truthy (getSecret context (''sftp-password-'' @ name p))
                            then getSecret context (''sftp-password-'' @ name p) else None),
                agent = None\<rparr>"
  using assms by (simp add: getSSHConfig_def Let_def)

section \<open>The stores the program leaves hold no empty secret\<close>

lemma write_secret_nonempty:
  assumes "\<forall>key v. context key = Some v \<longrightarrow> v \<noteq> []"
  shows "\<forall>key v. write_secret w context key = Some v \<longrightarrow> v \<noteq> []"
  using assms by (cases w) (auto simp: setSecret_def deleteSecret_def split: if_splits)

lemma fold_write_secret_nonempty:
  "\<forall>key v. c key = Some v \<longrightarrow> v \<noteq> [] \<Longrightarrow>
   \<forall>key v. fold write_secret ws c key = Some v \<longrightarrow> v \<noteq> []"
proof (induction ws arbitrary: c)
  case Nil
  then show ?case by simp
next
  case (Cons w ws)
  from Cons.prems have "\<forall>key v. write_secret w c key = Some v \<longrightarrow> v \<noteq> []"
    by (rule write_secret_nonempty)
  then show ?case
    using Cons.IH [of "write_secret w c"] by simp
qed

lemma written_by_nonempty: "written_by ws key = Some v \<Longrightarrow> v \<noteq> []"
  using fold_write_secret_nonempty [of Map.empty ws] by (simp add: written_by_def)

lemma written_by_snoc: "written_by (ws @ [w]) = write_secret w (written_by ws)"
  by (simp add: written_by_def)

text \<open>
  The handlers that write the store do it by these writes: the add command stores the
  passphrase typed; the save message of the second file's panel stores the password
  typed; the removals of extension.ts delete the two keys.
\<close>

lemma addProfile_writes:
  "\<exists>key v. app_secrets (addProfile parseInt a st) = write_secret (Stored key v) (app_secrets st)"
proof (cases "app_secrets (addProfile parseInt a st) = app_secrets st")
  case True
  then have "app_secrets (addProfile parseInt a st)
               = write_secret (Stored [] []) (app_secrets st)"
    by simp
  then show ?thesis by blast
next
  case False
  then have "app_secrets (addProfile parseInt a st)
               = write_secret (Stored (''sftp-passphrase-'' @ the (ans_name a))
                                 (the (snd (key_prompts a)))) (app_secrets st)"
    by (cases "snd (key_prompts a)")
       (auto simp: addProfile_def load_def save_def Let_def split: prod.splits if_splits)
  then show ?thesis by blast
qed

lemma manageProfiles_save_part001_writes:
  "app_secrets (snd (manageProfiles_save_part001 parseInt f pn st))
     = write_secret (Stored (''sftp-password-'' @ form_name f) (form_password f))
         (app_secrets st)"
  by (simp add: manageProfiles_save_part001_def save_def Let_def split: prod.splits)

lemma delete_profile_secrets_writes:
  "delete_profile_secrets n context
     = write_secret (Deleted (''sftp-passphrase-'' @ n))
         (write_secret (Deleted (''sftp-password-'' @ n)) context)"
  by (simp add: delete_profile_secrets_def)

section \<open>Removal in extension.ts deletes both secrets\<close>

text \<open>
  Both removal paths of extension.ts end in the two \<^verbatim>\<open>deleteSecret\<close> calls; deleting a
  key the store does not hold changes nothing and raises nothing.
\<close>

lemma deleteSecret_absent: "context key = None \<Longrightarrow> deleteSecret context key = context"
  by (auto simp: deleteSecret_def)

lemma removeProfile_deletes_both:
  "removeProfile (Some k) st = (st', None) \<Longrightarrow> fst (load st) \<noteq> [] \<Longrightarrow>
   \<exists>n. removed_name (fst (splice1 k (fst (load st)))) = Inr n \<and>
       app_secrets st' (''sftp-password-'' @ n) = None \<and>
       app_secrets st' (''sftp-passphrase-'' @ n) = None"
  by (auto simp: removeProfile_def Let_def delete_profile_secrets_def deleteSecret_def
           split: prod.splits sum.splits if_splits)

lemma manageProfiles_remove_deletes_both:
  "manageProfiles_remove k pn st = ((pn', st'), None) \<Longrightarrow>
   \<exists>n. removed_name (fst (splice1 k (panel_profiles pn))) = Inr n \<and>
       app_secrets st' (''sftp-password-'' @ n) = None \<and>
       app_secrets st' (''sftp-passphrase-'' @ n) = None"
  by (auto simp: manageProfiles_remove_def Let_def delete_profile_secrets_def deleteSecret_def
           split: prod.splits sum.splits)

section \<open>Claims\<close>

text \<open>
  Claim C1 says that for a key-based profile with a private key path, a passphrase held
  by the secret store under \<^verbatim>\<open>sftp-passphrase-<name>\<close> is fetched and attached to the
  resolved configuration. \<^verbatim>\<open>getSSHConfig\<close> fetches it only when the profile record
  itself has a truthy \<open>passphrase\<close> property (line 87), and the add command saves the
  record without that property (lines 225-234) while it stores the passphrase (line 241).
  So for the profile the add command writes, read back from the file, the store holds the
  passphrase and the resolved configuration has the key but no passphrase.
\<close>

theorem stored_passphrase_not_attached:
  "map as_profile (fst (readProfiles (app_disk after_add))) = [Some prod_key_profile] \<and>
   authMethod prod_key_profile = SshKey \<and>
   privateKeyPath prod_key_profile = Some ''/home/u/.ssh/id_rsa'' \<and>
   getSecret (app_secrets after_add) (''sftp-passphrase-'' @ name prod_key_profile)
     = Some ''hunter2'' \<and>
   getSSHConfig key_env (app_secrets after_add) prod_key_profile
     = Inr \<lparr>ssh_host = ''h'', ssh_port = Num 22, ssh_username = ''u'',
            privateKey = Some ''KEY'', ssh_passphrase = None, password = None,
            agent = None\<rparr>"
proof -
  have numeric: "port prod_key_profile \<noteq> NaN"
    by (simp add: prod_key_profile_def)
  have "readProfiles (app_disk after_add) = ([profile_json prod_key_profile], [])"
    by (rule readProfiles_parsed) (simp add: after_add_disk)
  then have loaded: "map as_profile (fst (readProfiles (app_disk after_add)))
                       = [Some prod_key_profile]"
    by (simp add: as_profile_profile_json [OF numeric])
  have held: "getSecret (app_secrets after_add) (''sftp-passphrase-'' @ name prod_key_profile)
                = Some ''hunter2''"
    using after_add_secret by (simp add: getSecret_def prod_key_profile_def)
  have resolved: "getSSHConfig key_env (app_secrets after_add) prod_key_profile
     = Inr \<lparr>ssh_host = ''h'', ssh_port = Num 22, ssh_username = ''u'',
            privateKey = Some ''KEY'', ssh_passphrase = None, password = None,
            agent = None\<rparr>"
    by (simp add: getSSHConfig_def Let_def prod_key_profile_def key_env_def)
  from loaded held resolved show ?thesis
    by (simp add: prod_key_profile_def)
qed

text \<open>
  Claim C2 says that the recursive upload issues one \<^verbatim>\<open>fastPut\<close> per file and at most
  one \<^verbatim>\<open>mkdir\<close> per subdirectory, enters a subdirectory after its \<^verbatim>\<open>mkdir\<close> was issued,
  and issues no further call for the remaining siblings once an upload has failed.
  For a directory, the callback of \<^verbatim>\<open>sftp.mkdir\<close> calls \<^verbatim>\<open>next()\<close> (line 476) and so
  does the callback of the recursive call (line 480): from there on two chains walk the
  same listing. With the callbacks run in the order their operations were started, the
  upload of \<open>x.txt\<close> fails and is reported while only the \<^verbatim>\<open>mkdir\<close> of \<open>c\<close> and the
  listing of \<open>c\<close> are pending; the other chain then issues the upload of the sibling
  \<open>z.txt\<close>, and the caller's callback runs three times, twice without an error.
\<close>

theorem upload_goes_on_after_failed_put:
  "trace (run x_fails in_order (uploadDirectory (Some local_tree) ''/r/'')) =
     [Issued (Mkdir ''/r/b''),
      Issued (FastPut ''/r/x.txt''),
      Issued (Mkdir ''/r/b/c''),
      PutFailed ''/r/x.txt'',
      Finished (Some (PutError ''/r/x.txt'')),
      Finished None,
      Issued (FastPut ''/r/z.txt''),
      Finished None] \<and>
   queue (run x_fails in_order (uploadDirectory (Some local_tree) ''/r/'')) = []"
  by (simp add: uploadDirectory_def enter_def await_def emit_def Let_def x_fails_def
        local_tree_def in_order_def numeral_eq_Suc)

text \<open>
  Claim C3: for a profile with \<open>authMethod = ssh-key\<close> and no \<open>privateKeyPath\<close>,
  resolution succeeds; the configuration carries the agent reference, which is the
  ambient agent socket (the value of \<^verbatim>\<open>SSH_AUTH_SOCK\<close>), and neither a password nor key
  material. An empty path counts as no path for the source's test (line 84).
\<close>

theorem ssh_key_without_path_uses_agent:
  assumes "authMethod p = SshKey" and "\<not> truthy (privateKeyPath p)"
  shows "getSSHConfig env context p =
           Inr \<lparr>ssh_host = host p, ssh_port = port p, ssh_username = username p,
                privateKey = None, ssh_passphrase = None, password = None,
                agent = SSH_AUTH_SOCK env\<rparr>"
  using assms by (cases "privateKeyPath p") (simp_all add: getSSHConfig_def Let_def)

theorem ssh_key_without_path_uses_agent_witness:
  "authMethod agent_profile = SshKey \<and> privateKeyPath agent_profile = None \<and>
   getSSHConfig agent_env no_secrets agent_profile =
     Inr \<lparr>ssh_host = ''h'', ssh_port = Num 22, ssh_username = ''u'',
          privateKey = None, ssh_passphrase = None, password = None,
          agent = Some ''/tmp/ssh-agent.sock''\<rparr>"
  using ssh_key_without_path_uses_agent [of agent_profile agent_env no_secrets]
  by (simp add: agent_profile_def prod_profile_def agent_env_def)

text \<open>
  Claim C4, amended: for a profile with \<open>authMethod = ssh-key\<close> and a non-empty
  \<open>privateKeyPath\<close> whose file cannot be read, resolution fails with the key-read error
  and yields no configuration.
\<close>

theorem unreadable_key_fails:
  assumes "authMethod p = SshKey" and "privateKeyPath p = Some path" and "path \<noteq> []"
      and "readFileSync env path = None"
  shows "getSSHConfig env context p = Inl KeyReadError"
  using assms by (simp add: getSSHConfig_def Let_def)

theorem unreadable_key_fails_witness:
  "authMethod prod_key_profile = SshKey \<and>
   privateKeyPath prod_key_profile = Some ''/home/u/.ssh/id_rsa'' \<and>
   readFileSync bare_env ''/home/u/.ssh/id_rsa'' = None \<and>
   getSSHConfig bare_env no_secrets prod_key_profile = Inl KeyReadError"
  using unreadable_key_fails [of prod_key_profile "''/home/u/.ssh/id_rsa''" bare_env no_secrets]
  by (simp add: prod_key_profile_def bare_env_def)

text \<open>
  As first stated (any \<open>privateKeyPath\<close> whose file cannot be read), the statement fails
  for the empty path: line 84 takes it as absent, and resolution returns the agent
  configuration although no file can be read.
\<close>

theorem empty_key_path_resolves:
  "authMethod empty_path_profile = SshKey \<and>
   privateKeyPath empty_path_profile = Some [] \<and>
   readFileSync bare_env [] = None \<and>
   getSSHConfig bare_env no_secrets empty_path_profile =
     Inr \<lparr>ssh_host = ''h'', ssh_port = Num 22, ssh_username = ''u'',
          privateKey = None, ssh_passphrase = None, password = None, agent = None\<rparr>"
  by (simp add: getSSHConfig_def Let_def empty_path_profile_def prod_profile_def bare_env_def)

text \<open>
  Claim C5: for a profile with \<open>authMethod = password\<close> and every secret store the
  program's writes can leave, resolution does not fail and fetches the secret
  \<^verbatim>\<open>sftp-password-<name>\<close>: when it is present it is the password of the configuration,
  when it is absent the configuration has no password; no key, passphrase or agent field
  is set.
\<close>

theorem stored_password_attached:
  assumes "authMethod p = Password"
  shows "getSSHConfig env (written_by ws) p =
           Inr \<lparr>ssh_host = host p, ssh_port = port p, ssh_username = username p,
                privateKey = None, ssh_passphrase = None,
                password = getSecret (written_by ws) (''sftp-password-'' @ name p),
                agent = None\<rparr>"
proof (cases "getSecret (written_by ws) (''sftp-password-'' @ name p)")
  case None
  with password_branch [OF assms, of env "written_by ws"] show ?thesis by simp
next
  case (Some v)
  then have "v \<noteq> []"
    by (auto simp: getSecret_def dest: written_by_nonempty)
  with Some password_branch [OF assms, of env "written_by ws"] show ?thesis by simp
qed

theorem stored_password_attached_witness:
  "authMethod prod_profile = Password \<and>
   written_by prod_writes = prod_secrets \<and>
   getSSHConfig bare_env (written_by prod_writes) prod_profile =
     Inr \<lparr>ssh_host = ''h'', ssh_port = Num 22, ssh_username = ''u'',
          privateKey = None, ssh_passphrase = None, password = Some ''s3cr3t'',
          agent = None\<rparr> \<and>
   getSSHConfig bare_env (written_by []) prod_profile =
     Inr \<lparr>ssh_host = ''h'', ssh_port = Num 22, ssh_username = ''u'',
          privateKey = None, ssh_passphrase = None, password = None, agent = None\<rparr>"
proof -
  have pw: "authMethod prod_profile = Password"
    by (simp add: prod_profile_def)
  have store: "written_by prod_writes = prod_secrets"
    by (simp add: written_by_def prod_writes_def prod_secrets_def setSecret_def)
  have held: "getSecret (written_by prod_writes) (''sftp-password-'' @ name prod_profile)
                = Some ''s3cr3t''"
    by (simp add: store getSecret_def prod_secrets_def prod_profile_def)
  have none: "getSecret (written_by []) (''sftp-password-'' @ name prod_profile) = None"
    by (simp add: written_by_def getSecret_def)
  have present: "getSSHConfig bare_env (written_by prod_writes) prod_profile =
     Inr \<lparr>ssh_host = ''h'', ssh_port = Num 22, ssh_username = ''u'',
          privateKey = None, ssh_passphrase = None, password = Some ''s3cr3t'',
          agent = None\<rparr>"
    using stored_password_attached [OF pw, of bare_env prod_writes] held
    by (simp add: prod_profile_def)
  have absent: "getSSHConfig bare_env (written_by []) prod_profile =
     Inr \<lparr>ssh_host = ''h'', ssh_port = Num 22, ssh_username = ''u'',
          privateKey = None, ssh_passphrase = None, password = None, agent = None\<rparr>"
    using stored_password_attached [OF pw, of bare_env "[]"] none
    by (simp add: prod_profile_def)
  from pw store present absent show ?thesis by blast
qed

text \<open>
  Claim C6, amended: \<^verbatim>\<open>readProfiles\<close> never throws to its caller (every exception of its
  \<^verbatim>\<open>try\<close> block becomes one error message and the empty list). A missing file gives the
  empty list and no message; a file that cannot be read or parsed, or that parses to
  \<^verbatim>\<open>null\<close>, gives the empty list and one message; a document whose \<open>deployments\<close>
  property is missing or not an array gives the empty list and no message.
\<close>

theorem readProfiles_outcomes:
  "(deployments_file d = Missing \<longrightarrow> readProfiles d = ([], [])) \<and>
   (deployments_file d = Unreadable \<longrightarrow> readProfiles d = ([], [FailedToRead ReadFailed])) \<and>
   (deployments_file d = Unparseable \<longrightarrow> readProfiles d = ([], [FailedToRead SyntaxError])) \<and>
   (deployments_file d = Parsed JNull \<longrightarrow> readProfiles d = ([], [FailedToRead TypeError])) \<and>
   (\<forall>data. deployments_file d = Parsed data \<and> data \<noteq> JNull \<and>
       (\<forall>xs. member data ''deployments'' \<noteq> Inr (Some (JArray xs))) \<longrightarrow>
       readProfiles d = ([], [])) \<and>
   (\<forall>e. readProfiles_try d = Inl e \<longrightarrow> readProfiles d = ([], [FailedToRead e]))"
proof -
  have no_array: "array_or_empty v = []" if "\<forall>xs. v \<noteq> Some (JArray xs)" for v
    using that by (cases v rule: array_or_empty.cases) auto
  have "readProfiles d = ([], [])"
    if "deployments_file d = Parsed data" "data \<noteq> JNull"
       "\<forall>xs. member data ''deployments'' \<noteq> Inr (Some (JArray xs))" for data
  proof (cases data)
    case (JObject kvs)
    with that no_array [of "map_of kvs ''deployments''"] show ?thesis
      by (simp add: readProfiles_def readProfiles_try_def existsSync_file_def)
  qed (use that in \<open>simp_all add: readProfiles_def readProfiles_try_def existsSync_file_def\<close>)
  then show ?thesis
    by (auto simp: readProfiles_def readProfiles_try_def existsSync_file_def)
qed

theorem readProfiles_outcomes_witness:
  "readProfiles (holding Missing) = ([], []) \<and>
   readProfiles (holding Unparseable) = ([], [FailedToRead SyntaxError]) \<and>
   readProfiles (holding (Parsed JNull)) = ([], [FailedToRead TypeError]) \<and>
   readProfiles (holding (Parsed (JObject []))) = ([], []) \<and>
   readProfiles (holding (Parsed (JArray [JNumber 1]))) = ([], [])"
  using readProfiles_outcomes [of "holding Missing"]
        readProfiles_outcomes [of "holding Unparseable"]
        readProfiles_outcomes [of "holding (Parsed JNull)"]
        readProfiles_outcomes [of "holding (Parsed (JObject []))"]
        readProfiles_outcomes [of "holding (Parsed (JArray [JNumber 1]))"]
  by (simp add: holding_def)

text \<open>
  As first stated (every malformed case signals a warning), the statement fails for a
  file that parses to an object whose \<open>deployments\<close> property is a string: the empty list
  is returned and no message is shown.
\<close>

theorem non_array_gives_no_warning:
  "member (JObject [(''deployments'', JString ''none'')]) ''deployments''
     = Inr (Some (JString ''none'')) \<and>
   readProfiles (holding (Parsed (JObject [(''deployments'', JString ''none'')]))) = ([], [])"
  by (simp add: readProfiles_def readProfiles_try_def existsSync_file_def holding_def)

text \<open>
  Claim C7: for every list of profiles whose ports are numbers, a save that signals no
  write failure followed by a load returns the list that was saved, with no message, and
  each element read back is the profile that was written, field for field. (Secret values
  are in the secret store, not in these records.)
\<close>

theorem save_then_load:
  assumes "snd (writeProfiles (map profile_json ps) d) = []"
      and "\<forall>p \<in> set ps. port p \<noteq> NaN"
  shows "readProfiles (fst (writeProfiles (map profile_json ps) d)) = (map profile_json ps, []) \<and>
         map as_profile (fst (readProfiles (fst (writeProfiles (map profile_json ps) d))))
           = map Some ps"
proof -
  have loaded: "readProfiles (fst (writeProfiles (map profile_json ps) d))
                = (map profile_json ps, [])"
    using assms(1) by (rule readProfiles_parsed [OF writeProfiles_quiet])
  have "map as_profile (map profile_json ps) = map Some ps"
    using assms(2) by (induction ps) (simp_all add: as_profile_profile_json)
  with loaded show ?thesis by simp
qed

theorem save_then_load_witness:
  "snd (writeProfiles (map profile_json [prod_profile, prod_key_profile]) fresh_disk) = [] \<and>
   map as_profile (fst (readProfiles
       (fst (writeProfiles (map profile_json [prod_profile, prod_key_profile]) fresh_disk))))
     = [Some prod_profile, Some prod_key_profile]"
proof -
  have quiet: "snd (writeProfiles (map profile_json [prod_profile, prod_key_profile]) fresh_disk)
                 = []"
    by (simp add: writeProfiles_def mkdirSync_def writeFileSync_def fresh_disk_def)
  have numeric: "\<forall>p \<in> set [prod_profile, prod_key_profile]. port p \<noteq> NaN"
    by (simp add: prod_profile_def prod_key_profile_def)
  from save_then_load [OF quiet numeric, THEN conjunct2] quiet show ?thesis by simp
qed

text \<open>
  Claim C8 says that every removal of a profile deletes both of its secret keys, on every
  removal path. The two paths of extension.ts do (lemmas
  \<open>removeProfile_deletes_both\<close> and \<open>manageProfiles_remove_deletes_both\<close>). The two
  paths of the second source file call no secret-store function: in its panel, after
  \<open>prod\<close> was saved with the password \<open>s3cr3t\<close> and then removed, the list and the file
  are empty and the secret store still holds \<^verbatim>\<open>sftp-password-prod\<close>.
\<close>

theorem panel_remove_keeps_password:
  "getSecret (app_secrets (snd panel_saved)) ''sftp-password-prod'' = Some ''s3cr3t'' \<and>
   panel_profiles (fst panel_removed) = [] \<and>
   deployments_file (app_disk (snd panel_removed))
     = Parsed (JObject [(''deployments'', JArray [])]) \<and>
   getSecret (app_secrets (snd panel_removed)) ''sftp-password-prod'' = Some ''s3cr3t''"
  by (simp add: panel_removed_def panel_saved_eq manageProfiles_remove_part001_def splice1_def
        save_def writeProfiles_def writeFileSync_def getSecret_def prod_secrets_def Let_def)

text \<open>
  Claim C9: whenever resolution returns a configuration, it carries the profile's host,
  port and user name unchanged and at most one of agent reference, private key and
  password, a passphrase only together with a private key; which one is decided by
  \<open>authMethod\<close> (and, for ssh-key, by the key path). With \<open>authMethod = password\<close> and
  no stored secret, resolution returns the configuration with no credential, not an error.
\<close>

theorem at_most_one_credential:
  "(\<forall>c. getSSHConfig env context p = Inr c \<longrightarrow>
      ssh_host c = host p \<and> ssh_port c = port p \<and> ssh_username c = username p \<and>
      length (filter (\<lambda>x. x \<noteq> None) [agent c, privateKey c, password c]) \<le> 1 \<and>
      (ssh_passphrase c \<noteq> None \<longrightarrow> privateKey c \<noteq> None) \<and>
      (authMethod p = SshKey \<and> truthy (privateKeyPath p) \<longrightarrow>
         privateKey c \<noteq> None \<and> agent c = None \<and> password c = None) \<and>
      (authMethod p = SshKey \<and> \<not> truthy (privateKeyPath p) \<longrightarrow>
         agent c = SSH_AUTH_SOCK env \<and> privateKey c = None \<and> ssh_passphrase c = None \<and>
         password c = None) \<and>
      (authMethod p = Password \<longrightarrow>
         password c = (if truthy (getSecret context (''sftp-password-'' @ name p))
                       then getSecret context (''sftp-password-'' @ name p) else None) \<and>
         agent c = None \<and> privateKey c = None \<and> ssh_passphrase c = None)) \<and>
   (authMethod p = Password \<and> getSecret context (''sftp-password-'' @ name p) = None \<longrightarrow>
      getSSHConfig env context p =
        Inr \<lparr>ssh_host = host p, ssh_port = port p, ssh_username = username p,
             privateKey = None, ssh_passphrase = None, password = None, agent = None\<rparr>)"
proof (rule conjI)
  show "\<forall>c. getSSHConfig env context p = Inr c \<longrightarrow>
      ssh_host c = host p \<and> ssh_port c = port p \<and> ssh_username c = username p \<and>
      length (filter (\<lambda>x. x \<noteq> None) [agent c, privateKey c, password c]) \<le> 1 \<and>
      (ssh_passphrase c \<noteq> None \<longrightarrow> privateKey c \<noteq> None) \<and>
      (authMethod p = SshKey \<and> truthy (privateKeyPath p) \<longrightarrow>
         privateKey c \<noteq> None \<and> agent c = None \<and> password c = None) \<and>
      (authMethod p = SshKey \<and> \<not> truthy (privateKeyPath p) \<longrightarrow>
         agent c = SSH_AUTH_SOCK env \<and> privateKey c = None \<and> ssh_passphrase c = None \<and>
         password c = None) \<and>
      (authMethod p = Password \<longrightarrow>
         password c = (if truthy (getSecret context (''sftp-password-'' @ name p))
                       then getSecret context (''sftp-password-'' @ name p) else None) \<and>
         agent c = None \<and> privateKey c = None \<and> ssh_passphrase c = None)"
  proof (intro allI impI)
    fix c assume "getSSHConfig env context p = Inr c"
    then show "ssh_host c = host p \<and> ssh_port c = port p \<and> ssh_username c = username p \<and>
      length (filter (\<lambda>x. x \<noteq> None) [agent c, privateKey c, password c]) \<le> 1 \<and>
      (ssh_passphrase c \<noteq> None \<longrightarrow> privateKey c \<noteq> None) \<and>
      (authMethod p = SshKey \<and> truthy (privateKeyPath p) \<longrightarrow>
         privateKey c \<noteq> None \<and> agent c = None \<and> password c = None) \<and>
      (authMethod p = SshKey \<and> \<not> truthy (privateKeyPath p) \<longrightarrow>
         agent c = SSH_AUTH_SOCK env \<and> privateKey c = None \<and> ssh_passphrase c = None \<and>
         password c = None) \<and>
      (authMethod p = Password \<longrightarrow>
         password c = (if truthy (getSecret context (''sftp-password-'' @ name p))
                       then getSecret context (''sftp-password-'' @ name p) else None) \<and>
         agent c = None \<and> privateKey c = None \<and> ssh_passphrase c = None)"
      by (cases rule: resolved_cases) simp_all
  qed
next
  show "authMethod p = Password \<and> getSecret context (''sftp-password-'' @ name p) = None \<longrightarrow>
      getSSHConfig env context p =
        Inr \<lparr>ssh_host = host p, ssh_port = port p, ssh_username = username p,
             privateKey = None, ssh_passphrase = None, password = None, agent = None\<rparr>"
    by (simp add: getSSHConfig_def Let_def)
qed

theorem at_most_one_credential_witness:
  "authMethod prod_profile = Password \<and>
   getSecret no_secrets (''sftp-password-'' @ name prod_profile) = None \<and>
   getSSHConfig agent_env no_secrets prod_profile =
     Inr \<lparr>ssh_host = ''h'', ssh_port = Num 22, ssh_username = ''u'',
          privateKey = None, ssh_passphrase = None, password = None, agent = None\<rparr> \<and>
   getSSHConfig key_env no_secrets prod_key_profile =
     Inr \<lparr>ssh_host = ''h'', ssh_port = Num 22, ssh_username = ''u'',
          privateKey = Some ''KEY'', ssh_passphrase = None, password = None, agent = None\<rparr> \<and>
   length (filter (\<lambda>x. x \<noteq> None) [None, Some ''KEY'', None]) \<le> 1"
proof -
  have pw: "authMethod prod_profile = Password \<and>
            getSecret no_secrets (''sftp-password-'' @ name prod_profile) = None"
    by (simp add: prod_profile_def no_secrets_def getSecret_def)
  have fields: "host prod_profile = ''h''" "port prod_profile = Num 22"
      "username prod_profile = ''u''"
    by (simp_all add: prod_profile_def)
  from at_most_one_credential [of agent_env no_secrets prod_profile] pw
  have no_credential: "getSSHConfig agent_env no_secrets prod_profile =
     Inr \<lparr>ssh_host = ''h'', ssh_port = Num 22, ssh_username = ''u'',
          privateKey = None, ssh_passphrase = None, password = None, agent = None\<rparr>"
    by (simp only: fields; blast?)
  have with_key: "getSSHConfig key_env no_secrets prod_key_profile =
     Inr \<lparr>ssh_host = ''h'', ssh_port = Num 22, ssh_username = ''u'',
          privateKey = Some ''KEY'', ssh_passphrase = None, password = None, agent = None\<rparr>"
    by (simp add: getSSHConfig_def Let_def prod_key_profile_def key_env_def)
  from at_most_one_credential [of key_env no_secrets prod_key_profile] with_key
  have "length (filter (\<lambda>x. x \<noteq> None)
          [agent \<lparr>ssh_host = ''h'', ssh_port = Num 22, ssh_username = ''u'',
                  privateKey = Some ''KEY'', ssh_passphrase = None, password = None,
                  agent = None\<rparr>,
           privateKey \<lparr>ssh_host = ''h'', ssh_port = Num 22, ssh_username = ''u'',
                  privateKey = Some ''KEY'', ssh_passphrase = None, password = None,
                  agent = None\<rparr>,
           password \<lparr>ssh_host = ''h'', ssh_port = Num 22, ssh_username = ''u'',
                  privateKey = Some ''KEY'', ssh_passphrase = None, password = None,
                  agent = None\<rparr>]) \<le> 1"
    by blast
  then have one: "length (filter (\<lambda>x. x \<noteq> None) [None, Some ''KEY'', None]) \<le> 1"
    by simp
  from pw no_credential with_key one show ?thesis by blast
qed

text \<open>
  Claim C10, amended: \<^verbatim>\<open>writeProfiles\<close> writes every property of the records it is
  given, a \<open>passphrase\<close> property included, so the file is independent of passphrases
  only as far as the records carry none. The record the add command saves never carries
  one: the file and the messages the add command leaves are the same whatever passphrase
  was typed.
\<close>

theorem add_writes_no_passphrase:
  "member (profile_json p) ''passphrase'' = Inr (map_option JString (passphrase p)) \<and>
   app_disk (addProfile parseInt (a\<lparr>ans_passphrase := x\<rparr>) st) =
     app_disk (addProfile parseInt (a\<lparr>ans_passphrase := y\<rparr>) st) \<and>
   app_notices (addProfile parseInt (a\<lparr>ans_passphrase := x\<rparr>) st) =
     app_notices (addProfile parseInt (a\<lparr>ans_passphrase := y\<rparr>) st)"
proof -
  have "member (profile_json p) ''passphrase'' = Inr (map_option JString (passphrase p))"
    by (cases "privateKeyPath p"; cases "deployOnSave p"; cases "passphrase p")
       (simp_all add: profile_json_def)
  then show ?thesis
    by (simp add: addProfile_def key_prompts_def Let_def split: prod.splits option.splits)
qed

theorem add_writes_no_passphrase_witness:
  "app_disk (addProfile parseInt10 (key_answers\<lparr>ans_passphrase := Some ''a''\<rparr>) fresh_app) =
     app_disk (addProfile parseInt10 (key_answers\<lparr>ans_passphrase := Some ''b''\<rparr>) fresh_app) \<and>
   app_disk (addProfile parseInt10 (key_answers\<lparr>ans_passphrase := Some ''a''\<rparr>) fresh_app) =
     \<lparr>deployments_file =
        Parsed (JObject [(''deployments'', JArray [profile_json prod_key_profile])]),
      dir_exists = True, mkdir_ok = True, write_ok = True\<rparr>"
  using add_writes_no_passphrase
          [where p = prod_key_profile and parseInt = parseInt10 and a = key_answers
             and x = "Some ''a''" and st = fresh_app and y = "Some ''hunter2''"]
        add_writes_no_passphrase
          [where p = prod_key_profile and parseInt = parseInt10 and a = key_answers
             and x = "Some ''a''" and st = fresh_app and y = "Some ''b''"]
        after_add_disk
  by (simp add: after_add_def key_answers_def)

text \<open>
  As first stated (two lists that differ only in the \<open>passphrase\<close> property of a record
  are written as the same file), the statement fails: the two records below differ in
  that property only, and the files written for them differ.
\<close>

theorem passphrase_property_is_written:
  "profile_a\<lparr>passphrase := None\<rparr> = profile_b\<lparr>passphrase := None\<rparr> \<and>
   deployments_file (fst (writeProfiles [profile_json profile_a] fresh_disk)) \<noteq>
   deployments_file (fst (writeProfiles [profile_json profile_b] fresh_disk))"
  by (simp add: writeProfiles_def mkdirSync_def writeFileSync_def fresh_disk_def
        profile_json_def profile_a_def profile_b_def prod_key_profile_def)

end
